theory Spec2Isabelle
  imports Main
begin

section \<open>JavaScript values\<close>

text \<open>
  A JavaScript string is a sequence of UTF-16 code units; a literal of the source is
  written \<open>js ''...''\<close>. A string is falsy exactly when it is empty.
\<close>

type_synonym jsstring = "nat list"

definition js :: "string \<Rightarrow> jsstring" where
  "js s = map of_char s"

text \<open>
  \<open>String.prototype.trim\<close> removes WhiteSpace and LineTerminator code points from both
  ends: TAB, LF, VT, FF, CR, SP, NBSP, U+1680, U+2000..U+200A, U+2028, U+2029, U+202F,
  U+205F, U+3000 and U+FEFF. All of them are single code units.
\<close>

definition isWhiteSpace :: "nat \<Rightarrow> bool" where
  "isWhiteSpace c \<longleftrightarrow>
     c = 9 \<or> c = 10 \<or> c = 11 \<or> c = 12 \<or> c = 13 \<or> c = 32 \<or> c = 160 \<or> c = 5760 \<or>
     (8192 \<le> c \<and> c \<le> 8202) \<or> c = 8232 \<or> c = 8233 \<or> c = 8239 \<or> c = 8287 \<or>
     c = 12288 \<or> c = 65279"

definition trim :: "jsstring \<Rightarrow> jsstring" where
  "trim s = rev (dropWhile isWhiteSpace (rev (dropWhile isWhiteSpace s)))"

text \<open>
  A thrown value or a promise rejection: an \<open>Error\<close> object with its message, or any
  other value (the source tests \<open>error instanceof Error\<close>).
\<close>

datatype thrown = Error jsstring | NonError

definition errorMessage :: "jsstring \<Rightarrow> thrown \<Rightarrow> jsstring" where
  "errorMessage fallback e = (case e of Error m \<Rightarrow> m | NonError \<Rightarrow> fallback)"

section \<open>Observable actions\<close>

text \<open>
  Every call that leaves the plugin (console, notices, microphone, socket, synthesis
  request, audio elements, object URLs) is appended to the trace of the object that makes
  it, in program order. \<open>ConsoleError\<close> and \<open>ConsoleLog\<close> carry the label the source
  prints; audio elements and object URLs are named by the number they were created with.
\<close>

datatype effect =
    ConsoleError jsstring
  | ConsoleLog jsstring
  | Notice jsstring
  | GetUserMedia
  | ChatConnect jsstring
  | SocketOn jsstring
  | SocketConnect
  | SocketClose
  | NewMediaRecorder "jsstring option"
  | RecorderStart nat
  | RecorderStop
  | TrackStop nat
  | SynthesizeJson jsstring jsstring "jsstring option"
  | CreateObjectURL nat
  | RevokeObjectURL nat
  | NewAudio nat nat
  | AudioPlay nat
  | AudioPause nat
  | PlayAudioResponse jsstring

record EmpathicNarratorSettings =
  humeApiKey :: jsstring

definition DEFAULT_SETTINGS :: EmpathicNarratorSettings where
  "DEFAULT_SETTINGS = \<lparr>humeApiKey = []\<rparr>"

record component =
  settings :: EmpathicNarratorSettings
  trace :: "effect list"

definition emit :: "effect list \<Rightarrow> 'a component_scheme \<Rightarrow> 'a component_scheme" where
  "emit es s = s\<lparr>trace := trace s @ es\<rparr>"

section \<open>HumeService\<close>

record HumeClient =
  apiKey :: jsstring

record HTMLAudioElement =
  src :: nat
  paused :: bool
  currentTime :: nat

text \<open>
  The service's fields \<open>settings\<close>, \<open>client\<close> and \<open>currentAudio\<close>, and beside them the
  part of the page the service writes to: the audio elements it has created (a reference
  to an element is its index in \<open>audios\<close>), the object URLs that are live, and the
  counter that names the next object URL.
\<close>

record HumeService = component +
  client :: "HumeClient option"
  currentAudio :: "nat option"
  audios :: "HTMLAudioElement list"
  objectURLs :: "nat list"
  urlCounter :: nat

definition newHumeService :: "EmpathicNarratorSettings \<Rightarrow> HumeService" where
  "newHumeService st =
     \<lparr>settings = st, trace = [], client = None, currentAudio = None, audios = [],
      objectURLs = [], urlCounter = 0\<rparr>"

definition updateSettings :: "HumeService \<Rightarrow> EmpathicNarratorSettings \<Rightarrow> HumeService" where
  "updateSettings s st = s\<lparr>settings := st, client := None\<rparr>"

definition hasCredentials :: "HumeService \<Rightarrow> bool" where
  "hasCredentials s \<longleftrightarrow> humeApiKey (settings s) \<noteq> []"

definition getClient :: "HumeService \<Rightarrow> thrown + (HumeClient \<times> HumeService)" where
  "getClient s =
     (if humeApiKey (settings s) = [] then
        Inl (Error (js ''Hume API key is not configured. Please set it in the plugin settings.''))
      else
        (case client s of
           None \<Rightarrow>
             (let c = \<lparr>apiKey = humeApiKey (settings s)\<rparr> in Inr (c, s\<lparr>client := Some c\<rparr>))
         | Some c \<Rightarrow> Inr (c, s)))"

definition pauseAndRewind :: "HTMLAudioElement \<Rightarrow> HTMLAudioElement" where
  "pauseAndRewind a = a\<lparr>paused := True, currentTime := 0\<rparr>"

definition stopCurrentAudio :: "HumeService \<Rightarrow> HumeService" where
  "stopCurrentAudio s =
     (case currentAudio s of
        None \<Rightarrow> s
      | Some a \<Rightarrow>
          emit [AudioPause a]
            (s\<lparr>audios := (if a < length (audios s)
                            then (audios s)[a := pauseAndRewind (audios s ! a)]
                            else audios s),
               currentAudio := None\<rparr>))"

text \<open>
  The state of the promise a call of \<open>streamTextToSpeech\<close> returns: rejected, resolved,
  or suspended at one of its two \<open>await\<close>s (the synthesis request; the playback of the
  audio element with the given index and object URL).
\<close>

datatype completion = Rejected thrown | Resolved | AwaitSynthesis | AwaitPlayback nat nat

record Generation =
  audio :: "jsstring option"

record SynthesisResponse =
  generations :: "Generation list option"

text \<open>The \<open>catch\<close> block of \<open>streamTextToSpeech\<close>: log, notice, rethrow.\<close>

definition tts_catch :: "HumeService \<Rightarrow> thrown \<Rightarrow> completion \<times> HumeService" where
  "tts_catch s e =
     (Rejected e,
      emit [ConsoleError (js ''Hume TTS Error:''),
            Notice (js ''Error: '' @ errorMessage (js ''Unknown error occurred'') e)] s)"

text \<open>\<open>streamTextToSpeech\<close> from its entry to \<open>await client.tts.synthesizeJson\<close>.\<close>

definition streamTextToSpeech_begin ::
  "HumeService \<Rightarrow> jsstring \<Rightarrow> jsstring option \<Rightarrow> completion \<times> HumeService" where
  "streamTextToSpeech_begin s text description =
     (if text = [] \<or> trim text = [] then
        (Rejected (Error (js ''Text cannot be empty'')), s)
      else
        (case getClient s of
           Inl e \<Rightarrow> tts_catch s e
         | Inr (c, s1) \<Rightarrow>
             (AwaitSynthesis,
              emit [Notice (js ''Synthesizing speech...''),
                    SynthesizeJson (apiKey c) text description]
                (stopCurrentAudio s1))))"

text \<open>
  \<open>playAudio\<close> up to the return of its promise: the element is created, becomes the
  current one, and \<open>play()\<close> is called on it.
\<close>

definition playAudio :: "HumeService \<Rightarrow> nat \<Rightarrow> nat \<times> HumeService" where
  "playAudio s audioUrl =
     (let a = length (audios s) in
      (a, emit [NewAudio a audioUrl, AudioPlay a]
            (s\<lparr>audios := audios s @ [\<lparr>src = audioUrl, paused = False, currentTime = 0\<rparr>],
               currentAudio := Some a\<rparr>)))"

definition createObjectURL :: "HumeService \<Rightarrow> nat \<times> HumeService" where
  "createObjectURL s =
     (let u = urlCounter s in
      (u, emit [CreateObjectURL u]
            (s\<lparr>objectURLs := objectURLs s @ [u], urlCounter := Suc u\<rparr>)))"

text \<open>
  \<open>streamTextToSpeech\<close> from the settlement of the synthesis request (\<open>Inl\<close>: the request
  rejected) to \<open>await this.playAudio(audioUrl)\<close>.
\<close>

definition streamTextToSpeech_response ::
  "HumeService \<Rightarrow> thrown + SynthesisResponse \<Rightarrow> completion \<times> HumeService" where
  "streamTextToSpeech_response s r =
     (case r of
        Inl e \<Rightarrow> tts_catch s e
      | Inr response \<Rightarrow>
          (case generations response of
             None \<Rightarrow> tts_catch s (Error (js ''No audio was generated''))
           | Some [] \<Rightarrow> tts_catch s (Error (js ''No audio was generated''))
           | Some (generation # _) \<Rightarrow>
               (if audio generation \<noteq> None \<and> audio generation \<noteq> Some [] then
                  (let (audioUrl, s1) = createObjectURL s;
                       (a, s2) = playAudio s1 audioUrl
                   in (AwaitPlayback a audioUrl, s2))
                else tts_catch s (Error (js ''No audio data in response'')))))"

text \<open>
  The three ways the promise of \<open>playAudio\<close> settles: the element's \<open>ended\<close> event, its
  \<open>error\<close> event, or the rejection of \<open>audio.play()\<close>. Each handler revokes the object
  URL and clears \<open>currentAudio\<close>; \<open>None\<close> is \<open>resolve()\<close>, \<open>Some e\<close> is \<open>reject(e)\<close>.
\<close>

datatype playback_event = Ended | AudioError | PlayRejected thrown

definition revokeObjectURL :: "HumeService \<Rightarrow> nat \<Rightarrow> HumeService" where
  "revokeObjectURL s u = emit [RevokeObjectURL u] (s\<lparr>objectURLs := removeAll u (objectURLs s)\<rparr>)"

definition playAudio_settle ::
  "HumeService \<Rightarrow> nat \<Rightarrow> playback_event \<Rightarrow> thrown option \<times> HumeService" where
  "playAudio_settle s audioUrl ev =
     (case ev of
        Ended \<Rightarrow> (None, (revokeObjectURL s audioUrl)\<lparr>currentAudio := None\<rparr>)
      | AudioError \<Rightarrow>
          (Some (Error (js ''Failed to play audio'')),
           (revokeObjectURL s audioUrl)\<lparr>currentAudio := None\<rparr>)
      | PlayRejected e \<Rightarrow> (Some e, (revokeObjectURL s audioUrl)\<lparr>currentAudio := None\<rparr>))"

text \<open>\<open>streamTextToSpeech\<close> from the settlement of \<open>playAudio\<close> to its end.\<close>

definition streamTextToSpeech_playback ::
  "HumeService \<Rightarrow> nat \<Rightarrow> playback_event \<Rightarrow> completion \<times> HumeService" where
  "streamTextToSpeech_playback s audioUrl ev =
     (case playAudio_settle s audioUrl ev of
        (None, s1) \<Rightarrow> (Resolved, s1)
      | (Some e, s1) \<Rightarrow> tts_catch s1 e)"

text \<open>
  What the browser has done to an element by the time one of the three handlers runs: its
  playback has ended, failed or been refused, and the element is paused.
\<close>

definition playbackOver :: "nat \<Rightarrow> HumeService \<Rightarrow> HumeService" where
  "playbackOver a s =
     s\<lparr>audios := (if a < length (audios s)
                     then (audios s)[a := (audios s ! a)\<lparr>paused := True\<rparr>]
                     else audios s)\<rparr>"

text \<open>
  One call of \<open>streamTextToSpeech\<close> run to the end with nothing else in between: \<open>synth\<close> is
  how the synthesis request settles, \<open>played\<close> how the playback settles (\<open>None\<close>: it
  has not yet, the element is playing and the call is suspended).
\<close>

definition streamTextToSpeech ::
  "HumeService \<Rightarrow> jsstring \<Rightarrow> jsstring option \<Rightarrow> thrown + SynthesisResponse \<Rightarrow>
   playback_event option \<Rightarrow> completion \<times> HumeService" where
  "streamTextToSpeech s text description synth played =
     (case streamTextToSpeech_begin s text description of
        (AwaitSynthesis, s1) \<Rightarrow>
          (case streamTextToSpeech_response s1 synth of
             (AwaitPlayback a audioUrl, s2) \<Rightarrow>
               (case played of
                  None \<Rightarrow> (AwaitPlayback a audioUrl, s2)
                | Some ev \<Rightarrow> streamTextToSpeech_playback (playbackOver a s2) audioUrl ev)
           | r \<Rightarrow> r)
      | r \<Rightarrow> r)"

text \<open>The audio elements of the page that are playing (not paused), by index.\<close>

definition playing :: "HumeService \<Rightarrow> nat list" where
  "playing s = filter (\<lambda>i. \<not> paused (audios s ! i)) [0..<length (audios s)]"




section \<open>AgentModal\<close>

datatype RecordingState = Inactive | Recording | Paused

record MediaRecorder =
  state :: RecordingState
  mimeType :: "jsstring option"

text \<open>
  \<open>MediaRecorder.stop()\<close> raises an \<open>InvalidStateError\<close> on a recorder that is inactive;
  otherwise the recorder becomes inactive.
\<close>

definition MediaRecorder_stop :: "MediaRecorder \<Rightarrow> thrown + MediaRecorder" where
  "MediaRecorder_stop r =
     (if state r = Inactive then Inl (Error (js ''InvalidStateError''))
      else Inr (r\<lparr>state := Inactive\<rparr>))"

text \<open>
  A media stream is the list of its tracks. A socket is an object of the vendor library,
  held by reference, here a number.
\<close>

record MediaStream =
  tracks :: "nat list"

type_synonym ChatSocket = nat

text \<open>An element is its text; a button is its text and its class list.\<close>

record HTMLButtonElement =
  label :: jsstring
  classes :: "jsstring list"

definition addClass :: "jsstring \<Rightarrow> HTMLButtonElement \<Rightarrow> HTMLButtonElement" where
  "addClass c b = (if c \<in> set (classes b) then b else b\<lparr>classes := classes b @ [c]\<rparr>)"

definition removeClass :: "jsstring \<Rightarrow> HTMLButtonElement \<Rightarrow> HTMLButtonElement" where
  "removeClass c b = b\<lparr>classes := removeAll c (classes b)\<rparr>"

record AgentModal = component +
  mediaStream :: "MediaStream option"
  socket :: "ChatSocket option"
  isListening :: bool
  mediaRecorder :: "MediaRecorder option"
  statusEl :: "jsstring option"
  transcriptionEl :: "jsstring option"
  responseEl :: "jsstring option"
  startButton :: "HTMLButtonElement option"

definition newAgentModal :: "EmpathicNarratorSettings \<Rightarrow> AgentModal" where
  "newAgentModal st =
     \<lparr>settings = st, trace = [], mediaStream = None, socket = None, isListening = False,
      mediaRecorder = None, statusEl = None, transcriptionEl = None, responseEl = None,
      startButton = None\<rparr>"

definition onOpen :: "AgentModal \<Rightarrow> AgentModal" where
  "onOpen m =
     m\<lparr>statusEl := Some (js ''Ready to start''),
       startButton := Some \<lparr>label = js ''Start Listening'', classes = [js ''mod-cta'']\<rparr>,
       transcriptionEl := Some (js ''Waiting for input...''),
       responseEl := Some (js ''Waiting for response...'')\<rparr>"

definition updateStatus :: "AgentModal \<Rightarrow> jsstring \<Rightarrow> AgentModal" where
  "updateStatus m status =
     (case statusEl m of None \<Rightarrow> m | Some _ \<Rightarrow> m\<lparr>statusEl := Some status\<rparr>)"

text \<open>
  The first two blocks of \<open>stopListening\<close>: the recorder (\<open>Inl\<close> is an exception of
  \<open>MediaRecorder.stop()\<close>) and the media stream.
\<close>

definition stopMediaRecorder :: "AgentModal \<Rightarrow> thrown + AgentModal" where
  "stopMediaRecorder m =
     (case mediaRecorder m of
        None \<Rightarrow> Inr (m\<lparr>mediaRecorder := None\<rparr>)
      | Some r \<Rightarrow>
          (if state r \<noteq> Inactive then
             (case MediaRecorder_stop r of
                Inl e \<Rightarrow> Inl e
              | Inr _ \<Rightarrow> Inr ((emit [RecorderStop] m)\<lparr>mediaRecorder := None\<rparr>))
           else Inr (m\<lparr>mediaRecorder := None\<rparr>)))"

definition stopMediaStream :: "AgentModal \<Rightarrow> AgentModal" where
  "stopMediaStream m =
     (case mediaStream m of
        None \<Rightarrow> m
      | Some stream \<Rightarrow> (emit (map TrackStop (tracks stream)) m)\<lparr>mediaStream := None\<rparr>)"

definition showStopped :: "AgentModal \<Rightarrow> AgentModal" where
  "showStopped m =
     (let m1 = updateStatus (m\<lparr>isListening := False\<rparr>) (js ''Stopped'') in
      case startButton m1 of
        None \<Rightarrow> m1
      | Some b \<Rightarrow>
          m1\<lparr>startButton :=
               Some (removeClass (js ''mod-warning'')
                      (addClass (js ''mod-cta'') (b\<lparr>label := js ''Start Listening''\<rparr>)))\<rparr>)"

text \<open>
  The \<open>RangeError\<close> of the engine when the call stack is exhausted.
\<close>

definition stackOverflow :: thrown where
  "stackOverflow = Error (js ''Maximum call stack size exceeded'')"

text \<open>
  \<open>close()\<close> of the vendor socket closes the connection and then calls the registered
  \<open>close\<close> handler itself, before it returns; an exception of the handler leaves
  \<open>close()\<close>. The handler of the modal calls \<open>stopListening\<close> again while the modal
  is listening, and \<open>stopListening\<close> clears \<open>this.socket\<close> and \<open>this.isListening\<close>
  only after \<open>close()\<close> has returned, so the three are defined together. \<open>depth\<close> is
  the number of nested calls of \<open>stopListening\<close> the call stack still has room for.
  The result is the exception that left the function, if any, and the modal as it is then.
\<close>

fun stopListening :: "nat \<Rightarrow> AgentModal \<Rightarrow> thrown option \<times> AgentModal"
  and ChatSocket_close :: "nat \<Rightarrow> AgentModal \<Rightarrow> thrown option \<times> AgentModal"
  and socket_onclose :: "nat \<Rightarrow> AgentModal \<Rightarrow> thrown option \<times> AgentModal" where
  "stopListening 0 m = (Some stackOverflow, m)"
| "stopListening (Suc depth) m =
     (case stopMediaRecorder m of
        Inl e \<Rightarrow> (Some e, m)
      | Inr m1 \<Rightarrow>
          (let m2 = stopMediaStream m1 in
           case socket m2 of
             None \<Rightarrow> (None, showStopped m2)
           | Some _ \<Rightarrow>
               (case ChatSocket_close depth m2 of
                  (Some e, m3) \<Rightarrow> (Some e, m3)
                | (None, m3) \<Rightarrow> (None, showStopped (m3\<lparr>socket := None\<rparr>)))))"
| "ChatSocket_close depth m = socket_onclose depth (emit [SocketClose] m)"
| "socket_onclose depth m =
     (let m1 = emit [ConsoleLog (js ''EVI WebSocket closed'')] m in
      if isListening m1 then stopListening depth m1 else (None, m1))"

definition onClose :: "nat \<Rightarrow> AgentModal \<Rightarrow> thrown option \<times> AgentModal" where
  "onClose depth m = stopListening depth m"

text \<open>The calls that open a connection.\<close>

fun isConnectAttempt :: "effect \<Rightarrow> bool" where
  "isConnectAttempt GetUserMedia = True"
| "isConnectAttempt (ChatConnect k) = True"
| "isConnectAttempt SocketConnect = True"
| "isConnectAttempt e = False"

subsection \<open>Socket events\<close>

definition setupSocketHandlers :: "AgentModal \<Rightarrow> AgentModal" where
  "setupSocketHandlers m =
     (if socket m = None then m
      else emit [SocketOn (js ''open''), SocketOn (js ''message''), SocketOn (js ''error''),
                 SocketOn (js ''close'')] m)"

text \<open>
  The handlers that \<open>setupSocketHandlers\<close> registers for \<open>open\<close>, \<open>message\<close> and
  \<open>error\<close>; the one for \<open>close\<close> is \<open>socket_onclose\<close> above.
\<close>

definition socket_onopen :: "AgentModal \<Rightarrow> AgentModal" where
  "socket_onopen m =
     updateStatus (emit [ConsoleLog (js ''EVI WebSocket connected'')] m) (js ''Connected to EVI'')"

definition socket_onerror :: "AgentModal \<Rightarrow> AgentModal" where
  "socket_onerror m =
     updateStatus
       (emit [ConsoleError (js ''EVI WebSocket error:''), Notice (js ''Connection error occurred'')] m)
       (js ''Connection error'')"


text \<open>
  \<open>atob\<close> follows the forgiving-base64 decoding of the web platform: ASCII whitespace is
  removed; when the length is a multiple of four, one or two trailing \<open>=\<close> are removed;
  it raises when the remaining length is 1 modulo 4 or a character is not in the base64
  alphabet.
\<close>

definition isAsciiWhitespace :: "nat \<Rightarrow> bool" where
  "isAsciiWhitespace c \<longleftrightarrow> c = 9 \<or> c = 10 \<or> c = 12 \<or> c = 13 \<or> c = 32"

definition isBase64Char :: "nat \<Rightarrow> bool" where
  "isBase64Char c \<longleftrightarrow>
     (65 \<le> c \<and> c \<le> 90) \<or> (97 \<le> c \<and> c \<le> 122) \<or> (48 \<le> c \<and> c \<le> 57) \<or> c = 43 \<or> c = 47"

fun dropPadding :: "jsstring \<Rightarrow> jsstring" where
  "dropPadding d =
     (if length d mod 4 = 0 then
        (if 2 \<le> length d \<and> drop (length d - 2) d = [61, 61] then take (length d - 2) d
         else if 1 \<le> length d \<and> drop (length d - 1) d = [61] then take (length d - 1) d
         else d)
      else d)"

definition atob_ok :: "jsstring \<Rightarrow> bool" where
  "atob_ok s =
     (let d = dropPadding (filter (\<lambda>c. \<not> isAsciiWhitespace c) s)
      in length d mod 4 \<noteq> 1 \<and> list_all isBase64Char d)"

text \<open>
  \<open>playAudioResponse\<close>: \<open>played\<close> is how \<open>audio.play()\<close> settles (\<open>Some e\<close>: it rejects
  with \<open>e\<close>, which the source catches and logs). \<open>PlayAudioResponse\<close> stands for the
  creation of the blob, its object URL and the audio element, and the call of \<open>play()\<close>.
\<close>

definition playAudioResponse :: "AgentModal \<Rightarrow> jsstring \<Rightarrow> thrown option \<Rightarrow> AgentModal" where
  "playAudioResponse m base64Audio played =
     (if \<not> atob_ok base64Audio then
        emit [ConsoleError (js ''Error playing audio response:'')] m
      else
        (case played of
           None \<Rightarrow> emit [PlayAudioResponse base64Audio] m
         | Some e \<Rightarrow>
             emit [PlayAudioResponse base64Audio, ConsoleError (js ''Error playing audio:'')] m))"

record ChatMessage =
  content :: "jsstring option"

text \<open>
  An inbound event, by its \<open>type\<close> tag; \<open>OtherEvent\<close> is every tag the \<open>switch\<close> has no
  case for. The \<open>message\<close> field may be missing, and so may its \<open>content\<close>.
\<close>

datatype SubscribeEvent =
    user_message "ChatMessage option"
  | assistant_message "ChatMessage option"
  | audio_output jsstring
  | user_interruption
  | error_event
  | OtherEvent jsstring

definition contentOf :: "ChatMessage option \<Rightarrow> jsstring" where
  "contentOf msg = (case msg of None \<Rightarrow> [] | Some c \<Rightarrow> (case content c of None \<Rightarrow> [] | Some t \<Rightarrow> t))"

fun handleSocketMessage :: "AgentModal \<Rightarrow> SubscribeEvent \<Rightarrow> thrown option \<Rightarrow> AgentModal" where
  "handleSocketMessage m (user_message msg) played =
     (if contentOf msg \<noteq> [] then
        (case transcriptionEl m of
           None \<Rightarrow> m
         | Some _ \<Rightarrow> m\<lparr>transcriptionEl := Some (contentOf msg)\<rparr>)
      else m)"
| "handleSocketMessage m (assistant_message msg) played =
     (if contentOf msg \<noteq> [] then
        (case responseEl m of
           None \<Rightarrow> m
         | Some _ \<Rightarrow> m\<lparr>responseEl := Some (contentOf msg)\<rparr>)
      else m)"
| "handleSocketMessage m (audio_output data) played =
     (if data \<noteq> [] then playAudioResponse m data played else m)"
| "handleSocketMessage m user_interruption played =
     updateStatus m (js ''Interrupted - listening...'')"
| "handleSocketMessage m error_event played =
     emit [ConsoleError (js ''EVI error:''), Notice (js ''EVI error occurred'')] m"
| "handleSocketMessage m (OtherEvent tag) played = m"

definition socket_onmessage :: "AgentModal \<Rightarrow> SubscribeEvent \<Rightarrow> thrown option \<Rightarrow> AgentModal" where
  "socket_onmessage m message played = handleSocketMessage m message played"

subsection \<open>Starting a session\<close>

text \<open>
  What the environment answers during one start: the microphone request, the creation of
  the socket, whether \<open>socket.connect()\<close> raises, the wait for the opening of the socket
  (\<open>Some e\<close>: it rejects), the MIME types the recorder supports, and whether the
  construction or the start of the recorder raises.
\<close>

record StartEnv =
  userMedia :: "thrown + MediaStream"
  chatConnect :: "thrown + ChatSocket"
  socketConnected :: "thrown option"
  opened :: "thrown option"
  supportedTypes :: "jsstring list"
  recorderCreated :: "thrown option"
  recorderStarted :: "thrown option"

fun firstSupported :: "jsstring list \<Rightarrow> jsstring list \<Rightarrow> jsstring option" where
  "firstSupported supported [] = None"
| "firstSupported supported (t # ts) =
     (if t = [] \<or> t \<in> set supported then (if t = [] then None else Some t)
      else firstSupported supported ts)"

definition getSupportedMimeType :: "jsstring list \<Rightarrow> jsstring option" where
  "getSupportedMimeType supported =
     firstSupported supported
       [js ''audio/webm;codecs=opus'', js ''audio/webm'', js ''audio/mp4'',
        js ''audio/ogg;codecs=opus'', js '''']"

definition startAudioStreaming :: "AgentModal \<Rightarrow> StartEnv \<Rightarrow> thrown option \<times> AgentModal" where
  "startAudioStreaming m env =
     (if mediaStream m = None \<or> socket m = None then (None, m)
      else
        (let mt = getSupportedMimeType (supportedTypes env);
             m1 = emit [NewMediaRecorder mt] m
         in case recorderCreated env of
              Some e \<Rightarrow> (Some e, m1)
            | None \<Rightarrow>
                (let m2 = emit [RecorderStart 250]
                            (m1\<lparr>mediaRecorder := Some \<lparr>state = Inactive, mimeType = mt\<rparr>\<rparr>)
                 in case recorderStarted env of
                      Some e \<Rightarrow> (Some e, m2)
                    | None \<Rightarrow>
                        (None, m2\<lparr>mediaRecorder := Some \<lparr>state = Recording, mimeType = mt\<rparr>\<rparr>))))"

text \<open>
  The state of the promise a call of \<open>startListening\<close> returns: resolved, rejected (an
  exception left the function), or suspended at one of its two \<open>await\<close>s.
\<close>

datatype session_completion = Done | Thrown thrown | AwaitUserMedia | AwaitOpen

text \<open>The \<open>catch\<close> block of \<open>startListening\<close>.\<close>

definition startListening_catch ::
  "nat \<Rightarrow> AgentModal \<Rightarrow> thrown \<Rightarrow> session_completion \<times> AgentModal" where
  "startListening_catch depth m e =
     (let message = errorMessage (js ''Unknown error'') e;
          m1 = emit [ConsoleError (js ''Error starting voice session:''),
                     Notice (js ''Failed to start voice session: '' @ message)] m;
          m2 = updateStatus m1 (js ''Error: '' @ message)
      in case stopListening depth m2 of
           (Some e', m3) \<Rightarrow> (Thrown e', m3)
         | (None, m3) \<Rightarrow> (Done, m3))"

text \<open>\<open>startListening\<close> from its entry to \<open>await getUserMedia\<close>.\<close>

definition startListening_begin :: "AgentModal \<Rightarrow> session_completion \<times> AgentModal" where
  "startListening_begin m =
     (if humeApiKey (settings m) = [] then
        (Done, emit [Notice (js ''Please configure your Hume API key in settings.'')] m)
      else
        (AwaitUserMedia,
         emit [GetUserMedia] (updateStatus m (js ''Requesting microphone access...''))))"

text \<open>From the settlement of \<open>getUserMedia\<close> to \<open>await this.socket.waitForOpen()\<close>.\<close>

definition startListening_media ::
  "nat \<Rightarrow> AgentModal \<Rightarrow> StartEnv \<Rightarrow> session_completion \<times> AgentModal" where
  "startListening_media depth m env =
     (case userMedia env of
        Inl e \<Rightarrow> startListening_catch depth m e
      | Inr stream \<Rightarrow>
          (let m1 = updateStatus (m\<lparr>mediaStream := Some stream\<rparr>) (js ''Connecting to Hume EVI...'');
               m2 = emit [ChatConnect (humeApiKey (settings m1))] m1
           in case chatConnect env of
                Inl e \<Rightarrow> startListening_catch depth m2 e
              | Inr sock \<Rightarrow>
                  (let m3 = emit [SocketConnect] (setupSocketHandlers (m2\<lparr>socket := Some sock\<rparr>))
                   in case socketConnected env of
                        Some e \<Rightarrow> startListening_catch depth m3 e
                      | None \<Rightarrow> (AwaitOpen, m3))))"

text \<open>From the settlement of \<open>waitForOpen\<close> to the end.\<close>

definition startListening_open ::
  "nat \<Rightarrow> AgentModal \<Rightarrow> StartEnv \<Rightarrow> session_completion \<times> AgentModal" where
  "startListening_open depth m env =
     (case opened env of
        Some e \<Rightarrow> startListening_catch depth m e
      | None \<Rightarrow>
          (case startAudioStreaming m env of
             (Some e, m1) \<Rightarrow> startListening_catch depth m1 e
           | (None, m1) \<Rightarrow>
               (let m2 = updateStatus (m1\<lparr>isListening := True\<rparr>) (js ''Listening...'')
                in (Done,
                    case startButton m2 of
                      None \<Rightarrow> m2
                    | Some b \<Rightarrow>
                        m2\<lparr>startButton :=
                             Some (addClass (js ''mod-warning'')
                                    (removeClass (js ''mod-cta'')
                                      (b\<lparr>label := js ''Stop Listening''\<rparr>)))\<rparr>))))"

text \<open>
  One call of \<open>startListening\<close> run to the end with nothing else in between; \<open>depth\<close>
  is the room on the call stack, as for \<open>stopListening\<close>.
\<close>

definition startListening ::
  "nat \<Rightarrow> AgentModal \<Rightarrow> StartEnv \<Rightarrow> session_completion \<times> AgentModal" where
  "startListening depth m env =
     (case startListening_begin m of
        (AwaitUserMedia, m1) \<Rightarrow>
          (case startListening_media depth m1 env of
             (AwaitOpen, m2) \<Rightarrow> startListening_open depth m2 env
           | r \<Rightarrow> r)
      | r \<Rightarrow> r)"


definition toggleListening ::
  "nat \<Rightarrow> AgentModal \<Rightarrow> StartEnv \<Rightarrow> session_completion \<times> AgentModal" where
  "toggleListening depth m env =
     (if isListening m then
        (case stopListening depth m of
           (Some e, m1) \<Rightarrow> (Thrown e, m1)
         | (None, m1) \<Rightarrow> (Done, m1))
      else startListening depth m env)"

section \<open>The plugin\<close>

text \<open>
  The plugin, the service and every modal hold a reference to the one settings object
  that \<open>loadSettings\<close> builds; the settings tab writes the key into that object and
  \<open>saveSettings\<close> hands the same object to the service again. Here each holds the value,
  and \<open>settingsChanged\<close> writes both.
\<close>

record EmpathicNarratorPlugin = component +
  humeService :: HumeService

definition loadSettings :: "EmpathicNarratorSettings option \<Rightarrow> EmpathicNarratorSettings" where
  "loadSettings stored = (case stored of None \<Rightarrow> DEFAULT_SETTINGS | Some st \<Rightarrow> st)"

definition onload :: "EmpathicNarratorSettings option \<Rightarrow> EmpathicNarratorPlugin" where
  "onload stored =
     \<lparr>settings = loadSettings stored, trace = [],
      humeService = newHumeService (loadSettings stored)\<rparr>"

definition saveSettings :: "EmpathicNarratorPlugin \<Rightarrow> EmpathicNarratorPlugin" where
  "saveSettings p = p\<lparr>humeService := updateSettings (humeService p) (settings p)\<rparr>"

definition settingsChanged :: "EmpathicNarratorPlugin \<Rightarrow> jsstring \<Rightarrow> EmpathicNarratorPlugin" where
  "settingsChanged p v = saveSettings (p\<lparr>settings := (settings p)\<lparr>humeApiKey := v\<rparr>\<rparr>)"

definition onunload :: "EmpathicNarratorPlugin \<Rightarrow> EmpathicNarratorPlugin" where
  "onunload p = p\<lparr>humeService := stopCurrentAudio (humeService p)\<rparr>"

text \<open>
  The callback of the ribbon icon and of the command "Open Voice Brainstorm" (the same
  body): the modal that was opened, if any, and the plugin.
\<close>

definition openVoiceBrainstorm ::
  "EmpathicNarratorPlugin \<Rightarrow> AgentModal option \<times> EmpathicNarratorPlugin" where
  "openVoiceBrainstorm p =
     (if \<not> hasCredentials (humeService p) then
        (None, emit [Notice (js ''Please configure your Hume API credentials in settings.'')] p)
      else (Some (onOpen (newAgentModal (settings p))), p))"

text \<open>
  The callback of the command "Read Selection with Emotion", with the call of
  \<open>streamTextToSpeech\<close> run to the end.
\<close>

definition readSelectionWithEmotion ::
  "EmpathicNarratorPlugin \<Rightarrow> jsstring \<Rightarrow> thrown + SynthesisResponse \<Rightarrow> playback_event option \<Rightarrow>
   EmpathicNarratorPlugin" where
  "readSelectionWithEmotion p selection synth played =
     (if selection = [] \<or> trim selection = [] then
        emit [Notice (js ''Please select some text to read.'')] p
      else if \<not> hasCredentials (humeService p) then
        emit [Notice (js ''Please configure your Hume API credentials in settings.'')] p
      else
        (case streamTextToSpeech (humeService p) selection None synth played of
           (Rejected e, s1) \<Rightarrow>
             emit [ConsoleError (js ''Read selection error:'')] (p\<lparr>humeService := s1\<rparr>)
         | (_, s1) \<Rightarrow> p\<lparr>humeService := s1\<rparr>))"

section \<open>A session that is listening\<close>

definition exampleEnv :: StartEnv where
  "exampleEnv =
     \<lparr>userMedia = Inr \<lparr>tracks = [0]\<rparr>, chatConnect = Inr 7, socketConnected = None,
      opened = None,
      supportedTypes = [js ''audio/webm''], recorderCreated = None, recorderStarted = None\<rparr>"

definition exampleSession :: AgentModal where
  "exampleSession =
     snd (startListening (Suc 0) (onOpen (newAgentModal \<lparr>humeApiKey = js ''key''\<rparr>)) exampleEnv)"

section \<open>A service that is playing\<close>




section \<open>Strings: helper facts\<close>

lemma js_eq_iff [simp]: "js a = js b \<longleftrightarrow> a = b"
proof -
  have "inj (of_char :: char \<Rightarrow> nat)"
    by (rule injI) simp
  then show ?thesis
    unfolding js_def by (simp add: inj_map_eq_map)
qed

lemma js_Nil [simp]: "js [] = []"
  by (simp add: js_def)

lemma js_eq_Nil_iff [simp]: "js a = [] \<longleftrightarrow> a = []"
  by (simp add: js_def)

lemma trim_eq_Nil_iff: "trim s = [] \<longleftrightarrow> (\<forall>c\<in>set s. isWhiteSpace c)"
proof
  assume t: "trim s = []"
  show "\<forall>c\<in>set s. isWhiteSpace c"
  proof (cases "dropWhile isWhiteSpace s")
    case Nil
    then show ?thesis by simp
  next
    case (Cons x xs)
    then have "\<not> isWhiteSpace x"
      by (metis hd_dropWhile list.sel(1) list.distinct(1))
    from t have "\<forall>c\<in>set (x # xs). isWhiteSpace c"
      by (simp add: trim_def Cons)
    with \<open>\<not> isWhiteSpace x\<close> show ?thesis by simp
  qed
next
  assume "\<forall>c\<in>set s. isWhiteSpace c"
  then have d: "dropWhile isWhiteSpace s = []"
    by simp
  show "trim s = []"
    unfolding trim_def d by simp
qed

section \<open>The service: helper facts\<close>

lemma emit_fields [simp]:
  "trace (emit es s) = trace s @ es"
  "settings (emit es s) = settings s"
  "audios (emit es t) = audios t"
  "currentAudio (emit es t) = currentAudio t"
  "objectURLs (emit es t) = objectURLs t"
  "client (emit es t) = client t"
  "urlCounter (emit es t) = urlCounter t"
  by (simp_all add: emit_def)

lemma playing_emit [simp]: "playing (emit es s) = playing s"
  by (simp add: playing_def emit_def)



lemma playing_client [simp]: "playing (s\<lparr>client := c\<rparr>) = playing s"
  by (simp add: playing_def)

lemma playing_createObjectURL [simp]: "playing (snd (createObjectURL s)) = playing s"
  by (simp add: createObjectURL_def playing_def Let_def emit_def)





lemma playing_tts_catch [simp]:
  "playing (snd (tts_catch s e)) = playing s"
  "currentAudio (snd (tts_catch s e)) = currentAudio s"
  by (simp_all add: tts_catch_def)





lemma playing_playback [simp]:
  "playing (snd (streamTextToSpeech_playback s u ev)) = playing s"
  by (cases ev)
     (simp_all add: streamTextToSpeech_playback_def playAudio_settle_def revokeObjectURL_def
       tts_catch_def playing_def)






section \<open>The modal: helper facts\<close>

lemma emit_modal [simp]:
  "mediaStream (emit es m) = mediaStream m"
  "socket (emit es m) = socket m"
  "isListening (emit es m) = isListening m"
  "mediaRecorder (emit es m) = mediaRecorder m"
  "statusEl (emit es m) = statusEl m"
  "transcriptionEl (emit es m) = transcriptionEl m"
  "responseEl (emit es m) = responseEl m"
  "startButton (emit es m) = startButton m"
  by (simp_all add: emit_def)

lemma updateStatus_fields [simp]:
  "trace (updateStatus m t) = trace m"
  "settings (updateStatus m t) = settings m"
  "mediaStream (updateStatus m t) = mediaStream m"
  "socket (updateStatus m t) = socket m"
  "isListening (updateStatus m t) = isListening m"
  "mediaRecorder (updateStatus m t) = mediaRecorder m"
  "transcriptionEl (updateStatus m t) = transcriptionEl m"
  "responseEl (updateStatus m t) = responseEl m"
  "startButton (updateStatus m t) = startButton m"
  "statusEl (updateStatus m t) = map_option (\<lambda>_. t) (statusEl m)"
  by (simp_all add: updateStatus_def split: option.splits)

lemma stopMediaRecorder_Inr:
  "stopMediaRecorder m =
     Inr ((emit (case mediaRecorder m of None \<Rightarrow> []
                 | Some r \<Rightarrow> (if state r = Inactive then [] else [RecorderStop])) m)
          \<lparr>mediaRecorder := None\<rparr>)"
  by (simp add: stopMediaRecorder_def MediaRecorder_stop_def emit_def split: option.splits)

lemma showStopped_fields [simp]:
  "trace (showStopped m) = trace m"
  "settings (showStopped m) = settings m"
  "mediaStream (showStopped m) = mediaStream m"
  "socket (showStopped m) = socket m"
  "isListening (showStopped m) = False"
  "mediaRecorder (showStopped m) = mediaRecorder m"
  "transcriptionEl (showStopped m) = transcriptionEl m"
  "responseEl (showStopped m) = responseEl m"
  "statusEl (showStopped m) = map_option (\<lambda>_. js ''Stopped'') (statusEl m)"
  by (simp_all add: showStopped_def Let_def split: option.splits)

lemma showStopped_idem: "showStopped (showStopped m) = showStopped m"
  by (cases "statusEl m"; cases "startButton m")
     (auto simp: showStopped_def Let_def updateStatus_def addClass_def removeClass_def)


lemma untouched_by_stop_blocks [simp]:
  "isListening (stopMediaStream m) = isListening m"
  "socket (stopMediaStream m) = socket m"
  "mediaRecorder (stopMediaStream m) = mediaRecorder m"
  "mediaStream (stopMediaStream m) = None"
  "responseEl (stopMediaStream m) = responseEl m"
  by (simp_all add: stopMediaStream_def split: option.splits)

lemma stopMediaStream_trace:
  "\<exists>es. trace (stopMediaStream m) = trace m @ es \<and> list_all (\<lambda>e. \<not> isConnectAttempt e) es"
  by (auto simp: stopMediaStream_def list_all_iff split: option.splits)

text \<open>The modal after the first two blocks of \<open>stopListening\<close>.\<close>

lemma stop_blocks:
  "\<exists>m2. stopMediaRecorder m = Inr (m2\<lparr>mediaRecorder := None\<rparr>) \<and>
        isListening m2 = isListening m \<and> socket m2 = socket m \<and>
        mediaStream m2 = mediaStream m \<and> responseEl m2 = responseEl m \<and>
        (\<exists>es. trace m2 = trace m @ es \<and> list_all (\<lambda>e. \<not> isConnectAttempt e) es)"
  unfolding stopMediaRecorder_Inr
  by (rule exI [of _ "emit (case mediaRecorder m of None \<Rightarrow> []
                 | Some r \<Rightarrow> (if state r = Inactive then [] else [RecorderStop])) m"])
     (simp split: option.splits)

lemma stop_overflows:
  "isListening m \<and> socket m = Some sock \<longrightarrow>
     (\<exists>m1. stopListening depth m = (Some stackOverflow, m1) \<and> isListening m1 \<and>
           socket m1 = Some sock \<and>
           (mediaRecorder m = None \<longrightarrow> mediaRecorder m1 = None) \<and>
           (mediaStream m = None \<longrightarrow> mediaStream m1 = None) \<and>
           (0 < depth \<longrightarrow> mediaRecorder m1 = None \<and> mediaStream m1 = None)) \<and>
     (\<exists>m1. socket_onclose depth m = (Some stackOverflow, m1) \<and> isListening m1 \<and>
           socket m1 = Some sock \<and>
           (mediaRecorder m = None \<longrightarrow> mediaRecorder m1 = None) \<and>
           (mediaStream m = None \<longrightarrow> mediaStream m1 = None) \<and>
           (0 < depth \<longrightarrow> mediaRecorder m1 = None \<and> mediaStream m1 = None))"
proof (induction depth arbitrary: m)
  case 0
  show ?case by simp
next
  case (Suc depth)
  have stop: "\<exists>m1. stopListening (Suc depth) x = (Some stackOverflow, m1) \<and> isListening m1 \<and>
           socket m1 = Some sock \<and> mediaRecorder m1 = None \<and> mediaStream m1 = None"
    if x: "isListening x" "socket x = Some sock" for x
  proof -
    obtain m2 where m2: "stopMediaRecorder x = Inr (m2\<lparr>mediaRecorder := None\<rparr>)"
      "isListening m2 = isListening x" "socket m2 = socket x"
      using stop_blocks by blast
    let ?m = "emit [SocketClose] (stopMediaStream (m2\<lparr>mediaRecorder := None\<rparr>))"
    have pre: "isListening ?m" "socket ?m = Some sock" "mediaRecorder ?m = None"
      "mediaStream ?m = None"
      using m2 x by simp_all
    with Suc.IH [of ?m] obtain m1 where
      "socket_onclose depth ?m = (Some stackOverflow, m1)" "isListening m1"
      "socket m1 = Some sock" "mediaRecorder m1 = None" "mediaStream m1 = None"
      by blast
    with m2 x show ?thesis by simp
  qed
  show ?case
  proof (intro impI conjI)
    assume a: "isListening m \<and> socket m = Some sock"
    from stop [of m] a
    show "\<exists>m1. stopListening (Suc depth) m = (Some stackOverflow, m1) \<and> isListening m1 \<and>
           socket m1 = Some sock \<and>
           (mediaRecorder m = None \<longrightarrow> mediaRecorder m1 = None) \<and>
           (mediaStream m = None \<longrightarrow> mediaStream m1 = None) \<and>
           (0 < Suc depth \<longrightarrow> mediaRecorder m1 = None \<and> mediaStream m1 = None)"
      by blast
    from stop [of "emit [ConsoleLog (js ''EVI WebSocket closed'')] m"] a
    obtain m1 where
      "stopListening (Suc depth) (emit [ConsoleLog (js ''EVI WebSocket closed'')] m) =
         (Some stackOverflow, m1)" "isListening m1" "socket m1 = Some sock"
      "mediaRecorder m1 = None" "mediaStream m1 = None"
      by auto
    with a
    show "\<exists>m1. socket_onclose (Suc depth) m = (Some stackOverflow, m1) \<and> isListening m1 \<and>
           socket m1 = Some sock \<and>
           (mediaRecorder m = None \<longrightarrow> mediaRecorder m1 = None) \<and>
           (mediaStream m = None \<longrightarrow> mediaStream m1 = None) \<and>
           (0 < Suc depth \<longrightarrow> mediaRecorder m1 = None \<and> mediaStream m1 = None)"
      by simp
  qed
qed

lemma mediaRecorder_None_update:
  assumes "mediaRecorder x = None"
  shows "x\<lparr>mediaRecorder := None\<rparr> = x"
  using assms by (cases x) simp

lemma stop_trace:
  "(\<exists>es. trace (snd (stopListening depth m)) = trace m @ es \<and>
         list_all (\<lambda>e. \<not> isConnectAttempt e) es) \<and>
   (\<exists>es. trace (snd (socket_onclose depth m)) = trace m @ es \<and>
         list_all (\<lambda>e. \<not> isConnectAttempt e) es)"
proof (induction depth arbitrary: m)
  case 0
  show ?case by (simp add: Let_def)
next
  case (Suc depth)
  have stop: "\<exists>es. trace (snd (stopListening (Suc depth) x)) = trace x @ es \<and>
         list_all (\<lambda>e. \<not> isConnectAttempt e) es" for x
  proof -
    obtain m2 es1 where m2: "stopMediaRecorder x = Inr (m2\<lparr>mediaRecorder := None\<rparr>)"
      "trace m2 = trace x @ es1" "list_all (\<lambda>e. \<not> isConnectAttempt e) es1"
      using stop_blocks by blast
    let ?m2 = "stopMediaStream (m2\<lparr>mediaRecorder := None\<rparr>)"
    obtain es2 where es2: "trace ?m2 = trace (m2\<lparr>mediaRecorder := None\<rparr>) @ es2"
      "list_all (\<lambda>e. \<not> isConnectAttempt e) es2"
      using stopMediaStream_trace by blast
    let ?m = "emit [SocketClose] ?m2"
    obtain es3 where es3: "trace (snd (socket_onclose depth ?m)) = trace ?m @ es3"
      "list_all (\<lambda>e. \<not> isConnectAttempt e) es3"
      using Suc.IH [of ?m] by blast
    obtain r m3 where c: "socket_onclose depth ?m = (r, m3)"
      by (cases "socket_onclose depth ?m")
    show ?thesis
    proof (cases "socket ?m2")
      case None
      with m2 es2 show ?thesis by simp
    next
      case (Some sock)
      with m2 es2 es3 c show ?thesis
        by (cases r) simp_all
    qed
  qed
  obtain es where es:
    "trace (snd (stopListening (Suc depth) (emit [ConsoleLog (js ''EVI WebSocket closed'')] m))) =
       trace (emit [ConsoleLog (js ''EVI WebSocket closed'')] m) @ es"
    "list_all (\<lambda>e. \<not> isConnectAttempt e) es"
    using stop by blast
  have "\<exists>es. trace (snd (socket_onclose (Suc depth) m)) = trace m @ es \<and>
         list_all (\<lambda>e. \<not> isConnectAttempt e) es"
  proof (cases "isListening m")
    case True
    with es show ?thesis
      by (simp del: stopListening.simps)
  next
    case False
    then show ?thesis
      by (simp del: stopListening.simps)
  qed
  with stop [of m] show ?case by blast
qed

lemma stop_completes:
  assumes "\<not> (isListening m \<and> socket m \<noteq> None)"
  shows "\<exists>m1. stopListening (Suc depth) m = (None, m1) \<and> mediaRecorder m1 = None \<and>
          mediaStream m1 = None \<and> socket m1 = None \<and> \<not> isListening m1 \<and>
          responseEl m1 = responseEl m \<and>
          stopListening (Suc depth) m1 = (None, m1)"
proof -
  obtain m2 where m2: "stopMediaRecorder m = Inr (m2\<lparr>mediaRecorder := None\<rparr>)"
    "isListening m2 = isListening m" "socket m2 = socket m" "responseEl m2 = responseEl m"
    using stop_blocks by blast
  let ?m2 = "stopMediaStream (m2\<lparr>mediaRecorder := None\<rparr>)"
  define m3 where "m3 =
    (case socket m of
       None \<Rightarrow> ?m2
     | Some _ \<Rightarrow> (emit [ConsoleLog (js ''EVI WebSocket closed'')] (emit [SocketClose] ?m2))
                  \<lparr>socket := None\<rparr>)"
  have r: "stopListening (Suc depth) m = (None, showStopped m3)"
    using assms m2 by (cases "socket m") (simp_all add: m3_def)
  have f: "mediaRecorder m3 = None" "mediaStream m3 = None" "socket m3 = None"
    "responseEl m3 = responseEl m"
    using m2 by (cases "socket m"; simp add: m3_def)+
  have "stopListening (Suc depth) (showStopped m3) = (None, showStopped (showStopped m3))"
  proof -
    have e: "(showStopped m3)\<lparr>mediaRecorder := None\<rparr> = showStopped m3"
      by (rule mediaRecorder_None_update) (simp add: f)
    show ?thesis
      using f by (simp add: stopMediaRecorder_def stopMediaStream_def e)
  qed
  then have "stopListening (Suc depth) (showStopped m3) = (None, showStopped m3)"
    by (simp add: showStopped_idem)
  with r f show ?thesis by simp
qed

lemmas example_defs =
  exampleSession_def exampleEnv_def startListening_def startListening_begin_def
  startListening_media_def startListening_open_def startAudioStreaming_def
  getSupportedMimeType_def setupSocketHandlers_def onOpen_def newAgentModal_def
  updateStatus_def emit_def addClass_def removeClass_def Let_def

lemma exampleSession_eval:
  "exampleSession =
     \<lparr>settings = \<lparr>humeApiKey = js ''key''\<rparr>,
      trace = [GetUserMedia, ChatConnect (js ''key''), SocketOn (js ''open''),
               SocketOn (js ''message''), SocketOn (js ''error''), SocketOn (js ''close''),
               SocketConnect, NewMediaRecorder (Some (js ''audio/webm'')), RecorderStart 250],
      mediaStream = Some \<lparr>tracks = [0]\<rparr>, socket = Some 7, isListening = True,
      mediaRecorder = Some \<lparr>state = Recording, mimeType = Some (js ''audio/webm'')\<rparr>,
      statusEl = Some (js ''Listening...''),
      transcriptionEl = Some (js ''Waiting for input...''),
      responseEl = Some (js ''Waiting for response...''),
      startButton = Some \<lparr>label = js ''Stop Listening'', classes = [js ''mod-warning'']\<rparr>\<rparr>"
  by (simp add: example_defs)





section \<open>The plugin: helper facts\<close>

lemma plugin_fields [simp]:
  "trace (p\<lparr>humeService := b\<rparr>) = trace p"
  "settings (p\<lparr>humeService := b\<rparr>) = settings p"
  "humeService (emit es p) = humeService p"
  by (cases p, simp add: emit_def)+

text \<open>The service reads the same settings as the plugin, from the start and after every change.\<close>

lemma service_settings_shared:
  "settings (humeService (onload stored)) = settings (onload stored)"
  "settings (humeService (settingsChanged p v)) = settings (settingsChanged p v)"
  by (simp_all add: onload_def newHumeService_def settingsChanged_def saveSettings_def
      updateSettings_def)

lemma readSelection_rejected:
  assumes "\<not> (selection = [] \<or> trim selection = [])" and "hasCredentials (humeService p)"
      and "fst (streamTextToSpeech (humeService p) selection None synth played) = Rejected e"
  shows "trace (readSelectionWithEmotion p selection synth played) =
           trace p @ [ConsoleError (js ''Read selection error:'')]"
  using assms
  by (cases "streamTextToSpeech (humeService p) selection None synth played")
     (simp add: readSelectionWithEmotion_def)


section \<open>Text-to-speech: claims\<close>

text \<open>
  Claim C3. For every input string that is empty or consists of whitespace only,
  \<open>streamTextToSpeech\<close> rejects with the error "Text cannot be empty" and leaves the
  service exactly as it was: the trace has no new entry (no synthesis request, no notice,
  no pause of an audio element), and the current audio handle and every audio element
  are untouched. This holds however the environment would have answered.
\<close>

theorem blank_text_rejected_first:
  assumes "text = [] \<or> (\<forall>c\<in>set text. isWhiteSpace c)"
  shows "streamTextToSpeech s text description synth played =
           (Rejected (Error (js ''Text cannot be empty'')), s)"
proof -
  from assms have "text = [] \<or> trim text = []"
    by (auto simp: trim_eq_Nil_iff)
  then have "streamTextToSpeech_begin s text description =
               (Rejected (Error (js ''Text cannot be empty'')), s)"
    by (simp add: streamTextToSpeech_begin_def)
  then show ?thesis
    by (simp add: streamTextToSpeech_def)
qed

theorem blank_text_rejected_first_witness:
  "list_all isWhiteSpace [32, 12288, 10] \<and>
   streamTextToSpeech (newHumeService \<lparr>humeApiKey = js ''key''\<rparr>) [32, 12288, 10] None
     (Inr \<lparr>generations = Some [\<lparr>audio = Some (js ''QUJD'')\<rparr>]\<rparr>) (Some Ended) =
     (Rejected (Error (js ''Text cannot be empty'')),
      newHumeService \<lparr>humeApiKey = js ''key''\<rparr>)"
proof -
  have h: "[32, 12288, 10] = [] \<or> (\<forall>c\<in>set [32, 12288, 10]. isWhiteSpace c)"
    by (simp add: isWhiteSpace_def)
  have w: "list_all isWhiteSpace [32, 12288, 10]"
    by (simp add: isWhiteSpace_def)
  show ?thesis
    using w blank_text_rejected_first [OF h] by simp
qed

text \<open>
  Claim C4. When the synthesis request answers with no generation list, with an empty
  one, or with a first generation whose audio is missing or empty, \<open>streamTextToSpeech\<close>
  logs the error, shows the notice "Error: " followed by the message ("No audio was
  generated" for a missing or empty list, "No audio data in response" otherwise), and
  rejects with that same error. This holds in whatever state the answer arrives, and so
  for every call that got as far as the request.
\<close>

theorem no_audio_rejected:
  assumes "generations response = None \<or> generations response = Some [] \<or>
           (\<exists>g gs. generations response = Some (g # gs) \<and> (audio g = None \<or> audio g = Some []))"
  shows "\<exists>msg. msg = (case generations response of
                        Some (g # gs) \<Rightarrow> js ''No audio data in response''
                      | _ \<Rightarrow> js ''No audio was generated'') \<and>
           streamTextToSpeech_response s (Inr response) =
             (Rejected (Error msg),
              emit [ConsoleError (js ''Hume TTS Error:''), Notice (js ''Error: '' @ msg)] s) \<and>
           (\<forall>s0 text description played.
              streamTextToSpeech_begin s0 text description = (AwaitSynthesis, s) \<longrightarrow>
              streamTextToSpeech s0 text description (Inr response) played =
                (Rejected (Error msg),
                 emit [ConsoleError (js ''Hume TTS Error:''), Notice (js ''Error: '' @ msg)] s))"
  using assms
  by (auto simp: streamTextToSpeech_response_def streamTextToSpeech_def tts_catch_def
      errorMessage_def split: option.splits list.splits)

theorem no_audio_rejected_witness:
  "generations \<lparr>generations = Some []\<rparr> = Some [] \<and>
   (let s0 = newHumeService \<lparr>humeApiKey = js ''key''\<rparr>;
        r = streamTextToSpeech s0 (js ''Good morning'') None (Inr \<lparr>generations = Some []\<rparr>) None
    in fst r = Rejected (Error (js ''No audio was generated'')) \<and>
       trace (snd r) =
         [Notice (js ''Synthesizing speech...''),
          SynthesizeJson (js ''key'') (js ''Good morning'') None,
          ConsoleError (js ''Hume TTS Error:''),
          Notice (js ''Error: No audio was generated'')])"
  using no_audio_rejected [of "\<lparr>generations = Some []\<rparr>"
      "snd (streamTextToSpeech_begin (newHumeService \<lparr>humeApiKey = js ''key''\<rparr>)
              (js ''Good morning'') None)"]
  by (simp add: streamTextToSpeech_def streamTextToSpeech_begin_def
      streamTextToSpeech_response_def tts_catch_def errorMessage_def getClient_def
      newHumeService_def stopCurrentAudio_def emit_def trim_def isWhiteSpace_def js_def Let_def)

text \<open>
  Claim C10. However the playback started by \<open>playAudio\<close> settles (the audio ends,
  the element reports an error, or \<open>play()\<close> rejects), afterwards the current-audio
  handle is null and the object URL is revoked, so that \<open>stopCurrentAudio\<close> changes
  nothing; the same holds once \<open>streamTextToSpeech\<close> has handled the settlement.
\<close>

theorem playback_settled_clears_handle:
  "currentAudio (snd (playAudio_settle s audioUrl ev)) = None \<and>
   audioUrl \<notin> set (objectURLs (snd (playAudio_settle s audioUrl ev))) \<and>
   RevokeObjectURL audioUrl \<in> set (trace (snd (playAudio_settle s audioUrl ev))) \<and>
   stopCurrentAudio (snd (playAudio_settle s audioUrl ev)) = snd (playAudio_settle s audioUrl ev) \<and>
   currentAudio (snd (streamTextToSpeech_playback s audioUrl ev)) = None \<and>
   audioUrl \<notin> set (objectURLs (snd (streamTextToSpeech_playback s audioUrl ev))) \<and>
   stopCurrentAudio (snd (streamTextToSpeech_playback s audioUrl ev)) =
     snd (streamTextToSpeech_playback s audioUrl ev)"
  by (cases ev)
     (simp_all add: playAudio_settle_def streamTextToSpeech_playback_def revokeObjectURL_def
       tts_catch_def emit_def stopCurrentAudio_def)




section \<open>Voice session: claims\<close>

text \<open>
  Claim C1. The claim fails for the state it names as mid-session. While the modal is
  listening and holds a socket, \<open>stopListening\<close> never returns: \<open>close()\<close> of the socket
  runs the \<open>close\<close> handler, the handler finds the listening flag still set and calls
  \<open>stopListening\<close> again, and so on until the call stack is exhausted; the exception
  leaves \<open>stopListening\<close> (and the start control and \<open>onClose\<close>, which call it) with the
  socket handle and the flag still set. In every other state (never started, already
  stopped) \<open>stopListening\<close> returns, leaves the three handles null and the flag false,
  and a second call changes nothing.
\<close>

theorem stopListening_overflows_while_listening:
  "(isListening m \<and> socket m = Some sock \<longrightarrow>
      (\<exists>m1. stopListening depth m = (Some stackOverflow, m1) \<and> isListening m1 \<and>
            socket m1 = Some sock) \<and>
      fst (toggleListening depth m env) = Thrown stackOverflow \<and>
      fst (onClose depth m) = Some stackOverflow) \<and>
   (\<not> (isListening m \<and> socket m \<noteq> None) \<longrightarrow>
      (\<exists>m1. stopListening (Suc depth) m = (None, m1) \<and> mediaRecorder m1 = None \<and>
            mediaStream m1 = None \<and> socket m1 = None \<and> \<not> isListening m1 \<and>
            stopListening (Suc depth) m1 = (None, m1)))"
proof (intro conjI impI)
  assume a: "isListening m \<and> socket m = Some sock"
  with stop_overflows [of m sock depth]
  obtain m1 where m1: "stopListening depth m = (Some stackOverflow, m1)" "isListening m1"
    "socket m1 = Some sock"
    by blast
  then show "\<exists>m1. stopListening depth m = (Some stackOverflow, m1) \<and> isListening m1 \<and>
            socket m1 = Some sock"
    by blast
  from m1 a show "fst (toggleListening depth m env) = Thrown stackOverflow"
    by (simp add: toggleListening_def del: stopListening.simps)
  from m1 show "fst (onClose depth m) = Some stackOverflow"
    by (simp add: onClose_def del: stopListening.simps)
next
  assume "\<not> (isListening m \<and> socket m \<noteq> None)"
  from stop_completes [OF this, of depth]
  show "\<exists>m1. stopListening (Suc depth) m = (None, m1) \<and> mediaRecorder m1 = None \<and>
            mediaStream m1 = None \<and> socket m1 = None \<and> \<not> isListening m1 \<and>
            stopListening (Suc depth) m1 = (None, m1)"
    by blast
qed

theorem stopListening_overflows_while_listening_witness:
  "isListening exampleSession \<and> socket exampleSession = Some 7 \<and>
   (\<exists>m1. stopListening 1000 exampleSession = (Some stackOverflow, m1) \<and> isListening m1 \<and>
         socket m1 = Some 7) \<and>
   fst (toggleListening 1000 exampleSession exampleEnv) = Thrown stackOverflow \<and>
   \<not> (isListening (onOpen (newAgentModal DEFAULT_SETTINGS)) \<and>
      socket (onOpen (newAgentModal DEFAULT_SETTINGS)) \<noteq> None) \<and>
   (\<exists>m1. stopListening (Suc 0) (onOpen (newAgentModal DEFAULT_SETTINGS)) = (None, m1) \<and>
         mediaRecorder m1 = None \<and> mediaStream m1 = None \<and> socket m1 = None \<and>
         \<not> isListening m1 \<and> stopListening (Suc 0) m1 = (None, m1))"
proof -
  have h: "isListening exampleSession \<and> socket exampleSession = Some 7"
    by (simp add: exampleSession_eval)
  have n: "\<not> (isListening (onOpen (newAgentModal DEFAULT_SETTINGS)) \<and>
      socket (onOpen (newAgentModal DEFAULT_SETTINGS)) \<noteq> None)"
    by (simp add: onOpen_def newAgentModal_def)
  from stopListening_overflows_while_listening
         [where m = exampleSession and sock = 7 and depth = 1000 and env = exampleEnv] h
       stopListening_overflows_while_listening
         [where m = "onOpen (newAgentModal DEFAULT_SETTINGS)" and depth = 0] n
  show ?thesis by blast
qed

text \<open>
  Claim C2. While the stored key is empty, the callback of "Open Voice Brainstorm" (and of
  the ribbon icon) shows the notice "Please configure your Hume API credentials in
  settings." and opens no modal; the start control of a modal that is not listening, and
  \<open>startListening\<close> itself, show the notice "Please configure your Hume API key in
  settings." and do nothing else: the notice is the only new entry of the trace, so there
  is no microphone request, no socket and no other call.
\<close>

theorem no_credential_no_session:
  assumes "humeApiKey (settings (humeService p)) = []"
      and "humeApiKey (settings m) = []" and "\<not> isListening m"
  shows "openVoiceBrainstorm p =
           (None, emit [Notice (js ''Please configure your Hume API credentials in settings.'')] p) \<and>
         toggleListening depth m env =
           (Done, emit [Notice (js ''Please configure your Hume API key in settings.'')] m) \<and>
         startListening depth m env =
           (Done, emit [Notice (js ''Please configure your Hume API key in settings.'')] m)"
  using assms
  by (simp add: openVoiceBrainstorm_def hasCredentials_def toggleListening_def
      startListening_def startListening_begin_def)

theorem no_credential_no_session_witness:
  "humeApiKey (settings (humeService (onload None))) = [] \<and>
   humeApiKey (settings (onOpen (newAgentModal DEFAULT_SETTINGS))) = [] \<and>
   \<not> isListening (onOpen (newAgentModal DEFAULT_SETTINGS)) \<and>
   openVoiceBrainstorm (onload None) =
     (None, emit [Notice (js ''Please configure your Hume API credentials in settings.'')]
              (onload None)) \<and>
   toggleListening (Suc 0) (onOpen (newAgentModal DEFAULT_SETTINGS)) exampleEnv =
     (Done, emit [Notice (js ''Please configure your Hume API key in settings.'')]
              (onOpen (newAgentModal DEFAULT_SETTINGS))) \<and>
   startListening (Suc 0) (onOpen (newAgentModal DEFAULT_SETTINGS)) exampleEnv =
     (Done, emit [Notice (js ''Please configure your Hume API key in settings.'')]
              (onOpen (newAgentModal DEFAULT_SETTINGS)))"
proof -
  have h1: "humeApiKey (settings (humeService (onload None))) = []"
    by (simp add: onload_def loadSettings_def newHumeService_def DEFAULT_SETTINGS_def)
  have h2: "humeApiKey (settings (onOpen (newAgentModal DEFAULT_SETTINGS))) = []"
    by (simp add: onOpen_def newAgentModal_def DEFAULT_SETTINGS_def)
  have h3: "\<not> isListening (onOpen (newAgentModal DEFAULT_SETTINGS))"
    by (simp add: onOpen_def newAgentModal_def)
  from no_credential_no_session [OF h1 h2 h3, where env = exampleEnv and depth = "Suc 0"]
    h1 h2 h3
  show ?thesis by blast
qed




text \<open>
  Claim C8. The first half of the claim fails. When the socket emits \<open>close\<close> while the
  modal is listening and holds the socket, the handler logs it and calls \<open>stopListening\<close>,
  which calls \<open>close()\<close> of the socket before it clears the handle and the flag; \<open>close()\<close>
  runs the handler again, and the calls nest until the call stack is exhausted. No full
  stop completes: the socket handle and the listening flag are still set afterwards. A
  listening modal without a socket is stopped in full. The second half holds: in no
  state does the \<open>close\<close> handler or the \<open>error\<close> handler make a call that opens a
  connection.
\<close>

theorem close_while_listening_overflows:
  "(isListening m \<and> socket m = Some sock \<longrightarrow>
      (\<exists>m1. socket_onclose depth m = (Some stackOverflow, m1) \<and> isListening m1 \<and>
            socket m1 = Some sock)) \<and>
   (isListening m \<and> socket m = None \<longrightarrow>
      (\<exists>m1. socket_onclose (Suc depth) m = (None, m1) \<and> mediaRecorder m1 = None \<and>
            mediaStream m1 = None \<and> socket m1 = None \<and> \<not> isListening m1)) \<and>
   (\<exists>es. trace (snd (socket_onclose depth m)) = trace m @ es \<and>
         list_all (\<lambda>e. \<not> isConnectAttempt e) es) \<and>
   list_all (\<lambda>e. \<not> isConnectAttempt e) (drop (length (trace m)) (trace (socket_onerror m)))"
proof (intro conjI impI)
  assume "isListening m \<and> socket m = Some sock"
  with stop_overflows [of m sock depth]
  show "\<exists>m1. socket_onclose depth m = (Some stackOverflow, m1) \<and> isListening m1 \<and>
            socket m1 = Some sock"
    by blast
next
  assume a: "isListening m \<and> socket m = None"
  let ?m = "emit [ConsoleLog (js ''EVI WebSocket closed'')] m"
  have "\<not> (isListening ?m \<and> socket ?m \<noteq> None)"
    using a by simp
  from stop_completes [OF this, of depth] a
  show "\<exists>m1. socket_onclose (Suc depth) m = (None, m1) \<and> mediaRecorder m1 = None \<and>
            mediaStream m1 = None \<and> socket m1 = None \<and> \<not> isListening m1"
    by (auto simp del: stopListening.simps)
next
  from stop_trace [of depth m]
  show "\<exists>es. trace (snd (socket_onclose depth m)) = trace m @ es \<and>
         list_all (\<lambda>e. \<not> isConnectAttempt e) es"
    by blast
next
  show "list_all (\<lambda>e. \<not> isConnectAttempt e)
          (drop (length (trace m)) (trace (socket_onerror m)))"
    by (simp add: socket_onerror_def)
qed

theorem close_while_listening_overflows_witness:
  "isListening exampleSession \<and> socket exampleSession = Some 7 \<and>
   (\<exists>m1. socket_onclose 1000 exampleSession = (Some stackOverflow, m1) \<and> isListening m1 \<and>
         socket m1 = Some 7) \<and>
   isListening (exampleSession\<lparr>socket := None\<rparr>) \<and>
   socket (exampleSession\<lparr>socket := None\<rparr>) = None \<and>
   (\<exists>m1. socket_onclose (Suc 0) (exampleSession\<lparr>socket := None\<rparr>) = (None, m1) \<and>
         mediaRecorder m1 = None \<and> mediaStream m1 = None \<and> socket m1 = None \<and>
         \<not> isListening m1)"
proof -
  have h: "isListening exampleSession \<and> socket exampleSession = Some 7"
    by (simp add: exampleSession_eval)
  have n: "isListening (exampleSession\<lparr>socket := None\<rparr>) \<and>
           socket (exampleSession\<lparr>socket := None\<rparr>) = None"
    by (simp add: exampleSession_eval)
  from close_while_listening_overflows
         [where m = exampleSession and sock = 7 and depth = 1000] h
       close_while_listening_overflows
         [where m = "exampleSession\<lparr>socket := None\<rparr>" and depth = 0] n
  show ?thesis by blast
qed

text \<open>
  Claim C9. For an inbound event of type \<open>assistant_message\<close> with non-empty content,
  in a modal whose reply region exists, \<open>handleSocketMessage\<close> sets the text of the
  reply region to exactly that content and changes nothing else; in particular the
  transcript region and the status label keep their text.
\<close>

theorem assistant_message_sets_reply:
  assumes "c \<noteq> []" and "responseEl m = Some old"
  shows "handleSocketMessage m (assistant_message (Some \<lparr>content = Some c\<rparr>)) played =
           m\<lparr>responseEl := Some c\<rparr> \<and>
         responseEl (handleSocketMessage m (assistant_message (Some \<lparr>content = Some c\<rparr>)) played) =
           Some c \<and>
         transcriptionEl (handleSocketMessage m (assistant_message (Some \<lparr>content = Some c\<rparr>)) played) =
           transcriptionEl m \<and>
         statusEl (handleSocketMessage m (assistant_message (Some \<lparr>content = Some c\<rparr>)) played) =
           statusEl m"
  using assms by (simp add: contentOf_def)

theorem assistant_message_sets_reply_witness:
  "js ''Hello'' \<noteq> [] \<and>
   responseEl exampleSession = Some (js ''Waiting for response...'') \<and>
   responseEl (handleSocketMessage exampleSession
                 (assistant_message (Some \<lparr>content = Some (js ''Hello'')\<rparr>)) None) =
     Some (js ''Hello'') \<and>
   transcriptionEl (handleSocketMessage exampleSession
                 (assistant_message (Some \<lparr>content = Some (js ''Hello'')\<rparr>)) None) =
     Some (js ''Waiting for input...'') \<and>
   statusEl (handleSocketMessage exampleSession
                 (assistant_message (Some \<lparr>content = Some (js ''Hello'')\<rparr>)) None) =
     Some (js ''Listening...'')"
proof -
  have h1: "js ''Hello'' \<noteq> []" by (simp add: js_def)
  have h2: "responseEl exampleSession = Some (js ''Waiting for response...'')"
    by (simp add: exampleSession_eval)
  have h3: "transcriptionEl exampleSession = Some (js ''Waiting for input...'')"
    and h4: "statusEl exampleSession = Some (js ''Listening...'')"
    by (simp_all add: exampleSession_eval)
  from assistant_message_sets_reply [OF h1 h2, of None]
  show ?thesis
    unfolding h3 h4 using h1 h2 by blast
qed

section \<open>Error handling: claims\<close>





end
